theory Spec2Isabelle
  imports Main
begin

section \<open>Data model of the object page\<close>

text \<open>
  The object page of the S3 gateway console
  (\<^verbatim>\<open>frontend/src/app/pages/user/object/object-datatable-page/object-datatable-page.component.ts\<close>)
  lists the latest versions of the objects below a prefix. One row of the listing is an
  \<^verbatim>\<open>S3ObjectVersion\<close>. Its type declaration lives in the S3 bucket service, which is
  not among the sources; the fields are the ones the component reads, with the types the
  data model of the specification gives them. Optional fields that the component handles
  when absent (\<^verbatim>\<open>VersionId\<close>, \<^verbatim>\<open>Size\<close>, \<^verbatim>\<open>ETag\<close>) are options.
\<close>

datatype ObjType = OBJECT | FOLDER

record S3ObjectVersion =
  Key :: string
  VersionId :: "string option"
  IsLatest :: bool
  IsDeleted :: bool
  Size :: "nat option"
  LastModified :: string
  ETag :: "string option"
  Type :: ObjType

text \<open>
  An entry of \<^verbatim>\<open>objectAttrsCache\<close> (a \<^verbatim>\<open>Record<string, any>\<close> in the source): the
  fields of the row and of the attribute response, each optional but the key.
\<close>

record CacheEntry =
  cKey :: string
  cVersionId :: "string option"
  cIsLatest :: "bool option"
  cIsDeleted :: "bool option"
  cType :: "ObjType option"
  cSize :: "string option"
  cLastModified :: "string option"
  cETag :: "string option"
  cObjectLockMode :: "string option"
  cObjectLockRetainUntilDate :: "string option"
  cObjectLockLegalHoldStatus :: "string option"
  cTagSet :: "(string \<times> string) list option"
  cNumVersions :: "nat option"
  cContentType :: "string option"

datatype PageStatus = none | ready | loading | loadingError | reloading

text \<open>
  The fields of \<^verbatim>\<open>ObjectDatatablePageComponent\<close> that the modelled methods read or
  write. The two \<^verbatim>\<open>Record<S3ObjectKey, _>\<close> dictionaries are maps from keys. The lodash
  test \<^verbatim>\<open>_.has(dict, key)\<close> is read as "the key is in the dictionary".
\<close>

record Page =
  bid :: string
  delimiter :: string
  objects :: "S3ObjectVersion list"
  pageStatus :: PageStatus
  prefixParts :: "string list"
  objectAttrsCache :: "string \<rightharpoonup> CacheEntry"
  loadingObjectAttrsKeys :: "string list"
  firstLoadComplete :: bool
  objectNumVersions :: "string \<rightharpoonup> nat"
  showDeletedObjects :: bool
  isBucketVersioned :: bool

text \<open>
  An observable, as a subscriber sees one run of it: the values it emits, then how it
  ends. RxJS ends a stream with exactly one of \<^verbatim>\<open>complete\<close> and \<^verbatim>\<open>error\<close>.
\<close>

datatype StreamEnd = Completed | Errored string

text \<open>
  The page as its field initialisers leave it, for a bucket \<open>b\<close>, with the default
  delimiter of the bucket service.
\<close>

definition initialPage :: "string \<Rightarrow> Page" where
  "initialPage b =
     \<lparr>bid = b, delimiter = ''/'', objects = [], pageStatus = none, prefixParts = [],
      objectAttrsCache = Map.empty, loadingObjectAttrsKeys = [], firstLoadComplete = False,
      objectNumVersions = Map.empty, showDeletedObjects = False, isBucketVersioned = False\<rparr>"

section \<open>Version reconciliation: \<^verbatim>\<open>loadData\<close>\<close>

text \<open>
  Modelled from the spec: \<^verbatim>\<open>isObjectVersionID\<close> is imported from
  \<^verbatim>\<open>functions.helper\<close>, but the helper file among the sources does not define it. A
  version id counts iff it is present (not \<^verbatim>\<open>null\<close>, absent or empty) and, when
  \<^verbatim>\<open>excludeNull\<close> is set, is not the literal \<^verbatim>\<open>null\<close> that the storage API reports
  for an unversioned bucket (the same literal the expanded-row form compares
  \<^verbatim>\<open>VersionId\<close> with).
\<close>

definition isObjectVersionID :: "string option \<Rightarrow> bool \<Rightarrow> bool" where
  "isObjectVersionID v excludeNull =
     (case v of
        None \<Rightarrow> False
      | Some x \<Rightarrow> x \<noteq> [] \<and> \<not> (excludeNull \<and> x = ''null''))"

text \<open>
  The \<^verbatim>\<open>_.forEach\<close> loop of the \<^verbatim>\<open>next\<close> handler: a key not yet in the index starts
  at 0, and a record with a version id adds one to its key's count.
\<close>

fun cacheNumVersions :: "(string \<rightharpoonup> nat) \<Rightarrow> S3ObjectVersion list \<Rightarrow> (string \<rightharpoonup> nat)" where
  "cacheNumVersions m [] = m"
| "cacheNumVersions m (ob # obs) =
     (let m1 = (if m (Key ob) = None then m(Key ob \<mapsto> 0) else m);
          m2 = (if isObjectVersionID (VersionId ob) True
                then (case m1 (Key ob) of
                        Some count \<Rightarrow> m1(Key ob \<mapsto> count + 1)
                      | None \<Rightarrow> m1)
                else m1)
      in cacheNumVersions m2 obs)"

text \<open>The statements of \<^verbatim>\<open>loadData\<close> before the listing request is sent.\<close>

definition loadData_start :: "Page \<Rightarrow> Page" where
  "loadData_start s =
     s\<lparr>objects := [],
       objectAttrsCache := Map.empty,
       objectNumVersions := Map.empty,
       pageStatus := (if \<not> firstLoadComplete s then loading else reloading)\<rparr>"

text \<open>The \<^verbatim>\<open>next\<close> handler, called with each list the listing emits.\<close>

definition loadData_next :: "Page \<Rightarrow> S3ObjectVersion list \<Rightarrow> Page" where
  "loadData_next s objs =
     (let s1 = s\<lparr>objectNumVersions := cacheNumVersions (objectNumVersions s) objs\<rparr>;
          newObjects = filter (\<lambda>ob. IsLatest ob = True \<and> IsDeleted ob = False) objs;
          newObjects' =
            (if showDeletedObjects s1
             then newObjects @ filter (\<lambda>ob. IsLatest ob = True \<and> IsDeleted ob = True) objs
             else newObjects)
      in s1\<lparr>objects := objects s1 @ newObjects'\<rparr>)"

text \<open>The \<^verbatim>\<open>complete\<close> and \<^verbatim>\<open>error\<close> handlers, then the \<^verbatim>\<open>finalize\<close> operator.\<close>

definition loadData_end :: "Page \<Rightarrow> StreamEnd \<Rightarrow> Page" where
  "loadData_end s e =
     (case e of
        Completed \<Rightarrow> s\<lparr>pageStatus := ready, firstLoadComplete := True\<rparr>
      | Errored err \<Rightarrow> s\<lparr>objects := [], pageStatus := loadingError, firstLoadComplete := True\<rparr>)"

text \<open>One reload: the listing emits \<open>emissions\<close> in order and ends with \<open>e\<close>.\<close>

definition loadData :: "Page \<Rightarrow> S3ObjectVersion list list \<Rightarrow> StreamEnd \<Rightarrow> Page" where
  "loadData s emissions e = loadData_end (foldl loadData_next (loadData_start s) emissions) e"

text \<open>The row set and the index that the specification gives for one input list.\<close>

definition DisplayRowSet :: "bool \<Rightarrow> S3ObjectVersion list \<Rightarrow> S3ObjectVersion list" where
  "DisplayRowSet showDeleted objs =
     filter (\<lambda>ob. IsLatest ob \<and> \<not> IsDeleted ob) objs @
     (if showDeleted then filter (\<lambda>ob. IsLatest ob \<and> IsDeleted ob) objs else [])"


section \<open>Key and prefix paths\<close>

text \<open>
  Modelled from the spec: \<^verbatim>\<open>splitKey\<close>, \<^verbatim>\<open>buildPrefix\<close> and \<^verbatim>\<open>buildKey\<close> are methods
  of the S3 bucket service, which is not among the sources. The specification gives them
  as: \<^verbatim>\<open>splitKey\<close> "splits key on the delimiter into an ordered sequence of non-empty
  segments, in order, discarding a trailing empty segment caused by a trailing
  delimiter"; \<^verbatim>\<open>buildPrefix\<close> "joins segments with the delimiter; appends a trailing
  delimiter if requested and segments is non-empty"; \<^verbatim>\<open>buildKey\<close> "joins pathSegments +
  leafName with the delimiter". The delimiter is one character (\<^verbatim>\<open>/\<close> by default).
\<close>

fun split_on :: "char \<Rightarrow> string \<Rightarrow> string list" where
  "split_on d [] = [[]]"
| "split_on d (c # cs) =
     (if c = d then [] # split_on d cs
      else (case split_on d cs of
              [] \<Rightarrow> [[c]]
            | seg # segs \<Rightarrow> (c # seg) # segs))"

definition splitKey :: "char \<Rightarrow> string \<Rightarrow> string list" where
  "splitKey d key = filter (\<lambda>seg. seg \<noteq> []) (split_on d key)"

fun join_with :: "char \<Rightarrow> string list \<Rightarrow> string" where
  "join_with d [] = []"
| "join_with d [seg] = seg"
| "join_with d (seg # next # segs) = seg @ d # join_with d (next # segs)"

definition buildPrefix :: "char \<Rightarrow> string list \<Rightarrow> bool \<Rightarrow> string" where
  "buildPrefix d parts trailingDelimiter =
     join_with d parts @ (if trailingDelimiter \<and> parts \<noteq> [] then [d] else [])"

definition buildKey :: "char \<Rightarrow> string \<Rightarrow> string list \<Rightarrow> string" where
  "buildKey d leafName parts = join_with d (parts @ [leafName])"

section \<open>Messages and effects\<close>

text \<open>
  What the page does to its collaborators is recorded as a list of effects, in the order
  the calls are made. \<^verbatim>\<open>translate(text, params)\<close> comes from \<^verbatim>\<open>i18n.helper\<close>, which is
  not among the sources: a message is kept as its template and its parameters. A
  parameter is a number, a string, or the percentage
  \<^verbatim>\<open>Math.round((Number(loaded) / Number(total)) * 100)\<close>, which is computed in floating
  point and kept as its two operands.
\<close>

datatype Param = Num nat | Str string | Percent nat nat

datatype Message = translate string "(string \<times> Param) list"

datatype Effect =
    BlockUiStart Message
  | BlockUiUpdate Message
  | BlockUiStop
  | ShowSuccess Message
  | ShowError Message
  | CallLoadData




text \<open>
  The outcome of one remote operation, and the two RxJS combinators the page builds
  batches with. \<open>net\<close> answers each call.

  Modelled from the spec: \<^verbatim>\<open>rxjsUiHelperService.concat\<close> is not among the sources.
  Sequential composition is "run task i+1 only after task i settles", and "an error
  aborts the remainder of that sequential batch": the stream emits the results in
  order and fails with the first error, as \<^verbatim>\<open>concat\<close> of RxJS does. The result is
  the calls made, the values emitted and the end of the stream.
\<close>

datatype 'a Outcome = Succeeded 'a | Failed string

fun isSucceeded :: "'a Outcome \<Rightarrow> bool" where
  "isSucceeded (Succeeded v) = True"
| "isSucceeded (Failed err) = False"

fun concat_run :: "('c \<Rightarrow> 'a Outcome) \<Rightarrow> 'c list \<Rightarrow> 'c list \<times> 'a list \<times> StreamEnd" where
  "concat_run net [] = ([], [], Completed)"
| "concat_run net (c # cs) =
     (case net c of
        Failed err \<Rightarrow> ([c], [], Errored err)
      | Succeeded v \<Rightarrow>
          (case concat_run net cs of (made, vs, e) \<Rightarrow> (c # made, v # vs, e)))"

text \<open>
  \<^verbatim>\<open>forkJoin\<close> of RxJS subscribes to every source at once. With no source it completes
  without emitting; otherwise it emits the list of the results once, when every source
  has succeeded, and fails when a source fails.
\<close>

fun firstFailure :: "'a Outcome list \<Rightarrow> string option" where
  "firstFailure [] = None"
| "firstFailure (Succeeded v # rs) = firstFailure rs"
| "firstFailure (Failed err # rs) = Some err"

fun results :: "'a Outcome list \<Rightarrow> 'a list" where
  "results [] = []"
| "results (Succeeded v # rs) = v # results rs"
| "results (Failed err # rs) = results rs"

definition forkJoin :: "('c \<Rightarrow> 'a Outcome) \<Rightarrow> 'c list \<Rightarrow> 'a list list \<times> StreamEnd" where
  "forkJoin net sources =
     (if sources = [] then ([], Completed)
      else (case firstFailure (map net sources) of
              Some err \<Rightarrow> ([], Errored err)
            | None \<Rightarrow> ([results (map net sources)], Completed)))"

section \<open>Bulk delete: \<^verbatim>\<open>doDelete\<close>\<close>

datatype DeleteCall =
    DeleteObjectByPrefix string string bool
  | DeleteObject string string "string option" bool

text \<open>
  The \<^verbatim>\<open>_.forEach\<close> loop of \<^verbatim>\<open>callbackFn\<close>: one source is pushed per item. The
  arguments of \<^verbatim>\<open>DeleteObjectByPrefix\<close> are the bucket, the prefix and \<^verbatim>\<open>allVersions\<close>;
  those of \<^verbatim>\<open>DeleteObject\<close> the bucket, the key, the version id (\<^verbatim>\<open>undefined\<close> here) and
  \<^verbatim>\<open>allVersions\<close>.
\<close>

fun deleteSources :: "Page \<Rightarrow> bool \<Rightarrow> S3ObjectVersion list \<Rightarrow> DeleteCall list \<Rightarrow> DeleteCall list" where
  "deleteSources s allVersions [] sources = sources"
| "deleteSources s allVersions (item # items) sources =
     deleteSources s allVersions items
       (case Type item of
          FOLDER \<Rightarrow> sources @ [DeleteObjectByPrefix (bid s) (Key item @ delimiter s) allVersions]
        | OBJECT \<Rightarrow> sources @ [DeleteObject (bid s) (Key item) None allVersions])"

text \<open>
  \<^verbatim>\<open>callbackFn\<close>: the sources run one after the other; the subscriber has a
  \<^verbatim>\<open>complete\<close> handler only, which calls \<^verbatim>\<open>loadData\<close>. The result is the delete calls
  made and the effects of the page.
\<close>

definition callbackFn ::
  "Page \<Rightarrow> (DeleteCall \<Rightarrow> 'a Outcome) \<Rightarrow> S3ObjectVersion list \<Rightarrow> bool \<Rightarrow> DeleteCall list \<times> Effect list" where
  "callbackFn s net items allVersions =
     (case concat_run net (deleteSources s allVersions items []) of
        (made, vs, e) \<Rightarrow>
          (made, (case e of Completed \<Rightarrow> [CallLoadData] | Errored err \<Rightarrow> [])))"

text \<open>
  \<^verbatim>\<open>doDelete\<close>: the dialog service (not among the sources) asks for confirmation and
  calls back when the user confirms. \<open>answer\<close> is \<open>None\<close> when the user cancels and
  \<open>Some checked\<close> when the user confirms, \<open>checked\<close> being the state of the "Delete all
  versions" checkbox, which only the dialog of a versioned bucket shows.
\<close>

definition doDelete ::
  "Page \<Rightarrow> (DeleteCall \<Rightarrow> 'a Outcome) \<Rightarrow> S3ObjectVersion list \<Rightarrow> bool option \<Rightarrow> DeleteCall list \<times> Effect list" where
  "doDelete s net selected answer =
     (case answer of
        None \<Rightarrow> ([], [])
      | Some checked \<Rightarrow>
          (if \<not> isBucketVersioned s then callbackFn s net selected False
           else callbackFn s net selected checked))"

text \<open>
  The page of the older layout (\<^verbatim>\<open>src/app/pages/user/object/...\<close>) has no versions: its
  rows carry \<^verbatim>\<open>Key\<close>, \<^verbatim>\<open>Size\<close>, \<^verbatim>\<open>LastModified\<close> and \<^verbatim>\<open>Type\<close> only, and its
  \<^verbatim>\<open>doDelete\<close> calls \<^verbatim>\<open>deleteObjects(bid, Key)\<close> for a folder and
  \<^verbatim>\<open>deleteObject(bid, Key)\<close> for an object.
\<close>

datatype LegacyDeleteCall =
    LegacyDeleteObjects string string
  | LegacyDeleteObject string string

fun legacy_deleteSources ::
  "string \<Rightarrow> S3ObjectVersion list \<Rightarrow> LegacyDeleteCall list \<Rightarrow> LegacyDeleteCall list" where
  "legacy_deleteSources b [] sources = sources"
| "legacy_deleteSources b (data # selected) sources =
     legacy_deleteSources b selected
       (case Type data of
          FOLDER \<Rightarrow> sources @ [LegacyDeleteObjects b (Key data)]
        | OBJECT \<Rightarrow> sources @ [LegacyDeleteObject b (Key data)])"

definition legacy_doDelete ::
  "string \<Rightarrow> (LegacyDeleteCall \<Rightarrow> 'a Outcome) \<Rightarrow> S3ObjectVersion list \<Rightarrow> bool \<Rightarrow>
     LegacyDeleteCall list \<times> Effect list" where
  "legacy_doDelete b net selected confirmed =
     (if \<not> confirmed then ([], [])
      else (case concat_run net (legacy_deleteSources b selected []) of
              (made, vs, e) \<Rightarrow>
                (made, (case e of Completed \<Rightarrow> [CallLoadData] | Errored err \<Rightarrow> []))))"

section \<open>Upload: \<^verbatim>\<open>doUpload\<close>\<close>











section \<open>Expanded rows: \<^verbatim>\<open>onExpandedRowsChange\<close>\<close>

text \<open>
  Two helpers format values for display. \<^verbatim>\<open>localeDatePipe.transform(value, format)\<close> is
  an injected pipe, not among the sources. \<^verbatim>\<open>bytesToSize\<close> of \<^verbatim>\<open>functions.helper\<close>
  answers \<^verbatim>\<open>0 B\<close> for \<^verbatim>\<open>undefined\<close>, \<^verbatim>\<open>null\<close> and 0; for every other value it computes
  with floating-point logarithms and rounding, and that branch is the helper
  \<open>formatBytes\<close>.
\<close>

record Helpers =
  formatBytes :: "nat \<Rightarrow> string"
  localeDate :: "string \<Rightarrow> string \<Rightarrow> string"

definition bytesToSize :: "Helpers \<Rightarrow> nat option \<Rightarrow> string" where
  "bytesToSize h v =
     (case v of
        None \<Rightarrow> ''0 B''
      | Some n \<Rightarrow> if n = 0 then ''0 B'' else formatBytes h n)"

text \<open>
  \<^verbatim>\<open>_.trim(value, chars)\<close> for one character: it is removed from both ends as often as it
  stands there; an absent value gives the empty string.
\<close>

definition trim :: "string option \<Rightarrow> char \<Rightarrow> string" where
  "trim v c =
     (case v of
        None \<Rightarrow> []
      | Some x \<Rightarrow> rev (dropWhile (\<lambda>a. a = c) (rev (dropWhile (\<lambda>a. a = c) x))))"

definition defaultTo :: "'a option \<Rightarrow> 'a \<Rightarrow> 'a" where
  "defaultTo v dflt = (case v of None \<Rightarrow> dflt | Some x \<Rightarrow> x)"

text \<open>
  \<^verbatim>\<open>_.findIndex\<close>: the index of the first element that satisfies the test, or -1.
\<close>

fun findIndex :: "('a \<Rightarrow> bool) \<Rightarrow> 'a list \<Rightarrow> int" where
  "findIndex P [] = - 1"
| "findIndex P (x # xs) =
     (if P x then 0
      else (let i = findIndex P xs in if i < 0 then - 1 else i + 1))"

text \<open>
  The response of \<^verbatim>\<open>getObjectAttributes\<close>, with the fields the specification lists for
  it, and the call itself: bucket, key and version id.
\<close>

record S3ObjectAttributes =
  rKey :: string
  rETag :: "string option"
  rObjectLockMode :: "string option"
  rObjectLockRetainUntilDate :: "string option"
  rObjectLockLegalHoldStatus :: "string option"
  rTagSet :: "(string \<times> string) list option"
  rContentType :: "string option"

datatype FetchCall = GetObjectAttributes string string "string option"

text \<open>
  The entry built for a deleted row, \<^verbatim>\<open>_.merge({}, object, {...})\<close>: the fields of the
  row, overwritten by the formatted and defaulted ones. \<^verbatim>\<open>_.merge\<close> skips a source
  value that is \<^verbatim>\<open>undefined\<close>, so \<^verbatim>\<open>NumVersions\<close> is absent when the index has no count
  for the key.
\<close>

definition deletedObjectAttrs :: "Helpers \<Rightarrow> Page \<Rightarrow> S3ObjectVersion \<Rightarrow> CacheEntry" where
  "deletedObjectAttrs h s ob =
     \<lparr>cKey = Key ob,
      cVersionId = VersionId ob,
      cIsLatest = Some (IsLatest ob),
      cIsDeleted = Some (IsDeleted ob),
      cType = Some (Type ob),
      cSize = Some (bytesToSize h (Size ob)),
      cLastModified = Some (localeDate h (LastModified ob) ''datetime''),
      cETag = Some (trim (ETag ob) (CHR 0x22)),
      cObjectLockMode = Some ''NONE'',
      cObjectLockRetainUntilDate = Some '''',
      cObjectLockLegalHoldStatus = Some ''OFF'',
      cTagSet = Some [],
      cNumVersions = objectNumVersions s (Key ob),
      cContentType = None\<rparr>"

text \<open>
  The entry built from a response. When a row of the event has the key of the response,
  the formatted and defaulted fields are merged into the response; otherwise the
  response is stored as it came.
\<close>

definition rawObjectAttrs :: "S3ObjectAttributes \<Rightarrow> CacheEntry" where
  "rawObjectAttrs objAttr =
     \<lparr>cKey = rKey objAttr,
      cVersionId = None,
      cIsLatest = None,
      cIsDeleted = None,
      cType = None,
      cSize = None,
      cLastModified = None,
      cETag = rETag objAttr,
      cObjectLockMode = rObjectLockMode objAttr,
      cObjectLockRetainUntilDate = rObjectLockRetainUntilDate objAttr,
      cObjectLockLegalHoldStatus = rObjectLockLegalHoldStatus objAttr,
      cTagSet = rTagSet objAttr,
      cNumVersions = None,
      cContentType = rContentType objAttr\<rparr>"

definition fetchedObjectAttrs ::
  "Helpers \<Rightarrow> Page \<Rightarrow> S3ObjectVersion list \<Rightarrow> S3ObjectAttributes \<Rightarrow> CacheEntry" where
  "fetchedObjectAttrs h s objs objAttr =
     (case find (\<lambda>ob. Key ob = rKey objAttr) objs of
        None \<Rightarrow> rawObjectAttrs objAttr
      | Some ob \<Rightarrow>
          (rawObjectAttrs objAttr)
            \<lparr>cSize := Some (bytesToSize h (Size ob)),
             cLastModified := Some (localeDate h (LastModified ob) ''datetime''),
             cETag := Some (trim (rETag objAttr) (CHR 0x22)),
             cObjectLockMode := Some (defaultTo (rObjectLockMode objAttr) ''NONE''),
             cObjectLockRetainUntilDate :=
               Some (localeDate h (defaultTo (rObjectLockRetainUntilDate objAttr) '''') ''datetime''),
             cObjectLockLegalHoldStatus :=
               Some (defaultTo (rObjectLockLegalHoldStatus objAttr) ''OFF''),
             cTagSet := Some (defaultTo (rTagSet objAttr) []),
             cNumVersions := objectNumVersions s (Key ob),
             cIsDeleted := Some (IsDeleted ob)\<rparr>)"

text \<open>
  The first \<^verbatim>\<open>_.forEach\<close> loop of \<^verbatim>\<open>onExpandedRowsChange\<close>, over the rows of the event.
  A row whose key is in the cache is skipped. Any other row is marked as loading; a
  deleted row gets its entry at once, a row that is not deleted adds a call to
  \<^verbatim>\<open>sources\<close>.
\<close>

fun expandRows ::
  "Helpers \<Rightarrow> S3ObjectVersion list \<Rightarrow> Page \<times> FetchCall list \<Rightarrow> Page \<times> FetchCall list" where
  "expandRows h [] (s, sources) = (s, sources)"
| "expandRows h (ob # obs) (s, sources) =
     (if objectAttrsCache s (Key ob) \<noteq> None then expandRows h obs (s, sources)
      else
        (let s1 = s\<lparr>loadingObjectAttrsKeys := loadingObjectAttrsKeys s @ [Key ob]\<rparr>
         in if IsDeleted ob
            then expandRows h obs
                   (s1\<lparr>objectAttrsCache :=
                        (objectAttrsCache s1)(Key ob \<mapsto> deletedObjectAttrs h s1 ob)\<rparr>,
                    sources)
            else expandRows h obs
                   (s1, sources @ [GetObjectAttributes (bid s1) (Key ob) (VersionId ob)])))"

text \<open>
  The subscriber of \<^verbatim>\<open>forkJoin(sources)\<close>: it stores an entry for each response, then
  purges the entries whose key no row of the event has (\<^verbatim>\<open>_.pickBy\<close>).
\<close>

fun storeObjAttrs ::
  "Helpers \<Rightarrow> S3ObjectVersion list \<Rightarrow> Page \<Rightarrow> S3ObjectAttributes list \<Rightarrow> Page" where
  "storeObjAttrs h objs s [] = s"
| "storeObjAttrs h objs s (objAttr # objAttrs) =
     storeObjAttrs h objs
       (s\<lparr>objectAttrsCache :=
            (objectAttrsCache s)(rKey objAttr \<mapsto> fetchedObjectAttrs h s objs objAttr)\<rparr>)
       objAttrs"

definition purgeCollapsed ::
  "S3ObjectVersion list \<Rightarrow> (string \<rightharpoonup> CacheEntry) \<Rightarrow> (string \<rightharpoonup> CacheEntry)" where
  "purgeCollapsed objs cache =
     (\<lambda>key. if 0 \<le> findIndex (\<lambda>ob. Key ob = key) objs then cache key else None)"

definition onExpandedRowsChange_next ::
  "Helpers \<Rightarrow> S3ObjectVersion list \<Rightarrow> Page \<Rightarrow> S3ObjectAttributes list \<Rightarrow> Page" where
  "onExpandedRowsChange_next h objs s objAttrs =
     (let s1 = storeObjAttrs h objs s objAttrs
      in s1\<lparr>objectAttrsCache := purgeCollapsed objs (objectAttrsCache s1)\<rparr>)"

text \<open>
  \<^verbatim>\<open>onExpandedRowsChange\<close> for the rows \<open>event\<close> that are expanded now, run to the end of
  its batch: \<open>net\<close> answers the attribute calls, the subscriber runs on what
  \<^verbatim>\<open>forkJoin\<close> emits, and \<^verbatim>\<open>finalize\<close> empties the loading keys. The result is the page
  and the attribute calls made.
\<close>

definition onExpandedRowsChange ::
  "Helpers \<Rightarrow> Page \<Rightarrow> (FetchCall \<Rightarrow> S3ObjectAttributes Outcome) \<Rightarrow> S3ObjectVersion list \<Rightarrow>
     Page \<times> FetchCall list" where
  "onExpandedRowsChange h s net event =
     (case expandRows h event (s\<lparr>loadingObjectAttrsKeys := []\<rparr>, []) of
        (s1, sources) \<Rightarrow>
          (case forkJoin net sources of
             (emissions, e) \<Rightarrow>
               ((foldl (onExpandedRowsChange_next h event) s1 emissions)
                  \<lparr>loadingObjectAttrsKeys := []\<rparr>,
                sources)))"

section \<open>Table actions and row menu\<close>

text \<open>
  \<^verbatim>\<open>_.every(collection, predicate)\<close> and the download batch of \<^verbatim>\<open>doDownload\<close>, one call
  per selected row.
\<close>

fun every :: "'a list \<Rightarrow> ('a \<Rightarrow> bool) \<Rightarrow> bool" where
  "every [] p = True"
| "every (x # xs) p = (if p x then every xs p else False)"

datatype DownloadCall = DownloadObject string string

fun doDownload :: "Page \<Rightarrow> S3ObjectVersion list \<Rightarrow> DownloadCall list \<Rightarrow> DownloadCall list" where
  "doDownload s [] sources = sources"
| "doDownload s (row # selected) sources =
     doDownload s selected (sources @ [DownloadObject (bid s) (Key row)])"

text \<open>
  The entries of \<^verbatim>\<open>datatableActions\<close> that the constructor builds: the type, the text,
  the \<^verbatim>\<open>enabledConstraints\<close> if any, and the method the callback calls.
\<close>

record EnabledConstraints =
  minSelected :: nat
  callback :: "S3ObjectVersion list \<Rightarrow> bool"

datatype ActionCallback = DoCreateFolder | DoUpload | DoDownload | DoDelete | ToggleShowDeleted

datatype DatatableAction =
    Action string string "EnabledConstraints option" ActionCallback
  | Divider

definition downloadAction :: DatatableAction where
  "downloadAction =
     Action ''button'' ''Download''
       (Some \<lparr>minSelected = 1,
              callback = (\<lambda>selected. every selected (\<lambda>ob. \<not> IsDeleted ob))\<rparr>)
       DoDownload"

definition deleteAction :: DatatableAction where
  "deleteAction =
     Action ''button'' ''Delete''
       (Some \<lparr>minSelected = 1,
              callback = (\<lambda>selected. every selected (\<lambda>ob. \<not> IsDeleted ob))\<rparr>)
       DoDelete"

definition datatableActions :: "DatatableAction list" where
  "datatableActions =
     [Action ''button'' ''Folder'' None DoCreateFolder,
      Action ''file'' ''Upload'' None DoUpload,
      downloadAction,
      deleteAction,
      Divider,
      Action ''button'' '''' None ToggleShowDeleted]"






section \<open>Unit conversion: \<^verbatim>\<open>toBytes\<close>\<close>

text \<open>
  \<^verbatim>\<open>toBytes\<close> of \<^verbatim>\<open>functions.helper\<close> matches the text of its argument against
  \<^verbatim>\<open>RegExp('^(\\d+(.\\d+)?) ?([bkmgtpezy]?(b|ib|B/s)?)?$', 'i')\<close>. In the pattern the dot
  before the second \<^verbatim>\<open>\\d+\<close> is not escaped: it stands for any character but a line
  terminator. A character of the model is one code unit of the JavaScript string.
\<close>

definition units :: string where
  "units = ''bkmgtpezy''"

text \<open>\<^verbatim>\<open>Array.prototype.indexOf\<close>: the first index of the element, or -1.\<close>

fun indexOf :: "'a list \<Rightarrow> 'a \<Rightarrow> int" where
  "indexOf [] x = - 1"
| "indexOf (y # ys) x =
     (if y = x then 0
      else (let i = indexOf ys x in if i < 0 then - 1 else i + 1))"

definition isDigit :: "char \<Rightarrow> bool" where
  "isDigit c = (0 \<le> indexOf ''0123456789'' c)"

definition parseDigits :: "string \<Rightarrow> nat" where
  "parseDigits ds = foldl (\<lambda>n c. 10 * n + nat (indexOf ''0123456789'' c)) 0 ds"

definition isLineTerminator :: "char \<Rightarrow> bool" where
  "isLineTerminator c = (c = CHR 0x0A \<or> c = CHR 0x0D)"

definition toLowerCase :: "string \<Rightarrow> string" where
  "toLowerCase str =
     map (\<lambda>c. case map_of (zip ''ABCDEFGHIJKLMNOPQRSTUVWXYZ'' ''abcdefghijklmnopqrstuvwxyz'') c of
                None \<Rightarrow> c
              | Some l \<Rightarrow> l) str"

text \<open>
  Whether the lower-cased, non-empty text \<open>u\<close> matches \<^verbatim>\<open>[bkmgtpezy]?(b|ib|B/s)?\<close> as a
  whole, under the flag \<^verbatim>\<open>i\<close>: a unit letter, a suffix, or a unit letter and a suffix.
\<close>

definition matchUnit :: "string \<Rightarrow> bool" where
  "matchUnit u =
     (u \<in> set [''b'', ''ib'', ''b/s'']
      \<or> (case u of
            [] \<Rightarrow> False
          | c # r \<Rightarrow> 0 \<le> indexOf units c \<and> (r = [] \<or> r \<in> set [''b'', ''ib'', ''b/s''])))"

text \<open>
  \<^verbatim>\<open>exec\<close> of the pattern: \<open>None\<close> for \<^verbatim>\<open>null\<close>, otherwise the groups 1 and 3 (\<open>None\<close>
  for a group that did not take part in the match). The pattern is anchored at both
  ends, and what follows group 1 (a space, a unit) holds no digit, so the match is
  determined. Group 1 starts with the longest run of digits (\<^verbatim>\<open>\\d\<close> is an ASCII
  digit). When the character after the run is no line terminator and digits follow it,
  group 1 goes on through that character and the whole run of digits behind it (this is
  group 2): were group 2 left out, the digits behind the character could not be matched
  by the rest of the pattern. After group 1 one space may stand. What is left is either
  empty, and then group 3 takes no part (an optional group is not entered to match the
  empty text, which is why \<^verbatim>\<open>toBytes('1024')\<close> is 1024), or it is the text of group 3
  and must be a unit as a whole.
\<close>

definition regexExec :: "string \<Rightarrow> (string \<times> string option) option" where
  "regexExec v =
     (let d1 = takeWhile isDigit v; r1 = dropWhile isDigit v
      in if d1 = [] then None
         else
           (case (case r1 of
                    [] \<Rightarrow> (d1, [])
                  | c # r2 \<Rightarrow>
                      if \<not> isLineTerminator c \<and> takeWhile isDigit r2 \<noteq> []
                      then (d1 @ c # takeWhile isDigit r2, dropWhile isDigit r2)
                      else (d1, r1)) of
              (m1, rest) \<Rightarrow>
                (let t = (case rest of
                            [] \<Rightarrow> []
                          | c # r \<Rightarrow> if c = CHR '' '' then r else rest)
                 in if t = [] then Some (m1, None)
                    else if matchUnit (toLowerCase t) then Some (m1, Some t)
                    else None)))"

text \<open>
  \<^verbatim>\<open>parseFloat\<close> of a text that starts with a digit: the longest prefix of the form
  digits, then optionally a point and digits, then optionally an exponent. The value is
  an exact fraction, numerator and denominator; the rounding of a double is left out.
\<close>

definition parseExponent :: "string \<Rightarrow> int" where
  "parseExponent r =
     (case r of
        [] \<Rightarrow> 0
      | c # r1 \<Rightarrow>
          if c = CHR ''e'' \<or> c = CHR ''E''
          then (case r1 of
                  [] \<Rightarrow> 0
                | sg # r2 \<Rightarrow>
                    if sg = CHR ''+'' \<and> takeWhile isDigit r2 \<noteq> []
                    then int (parseDigits (takeWhile isDigit r2))
                    else if sg = CHR ''-'' \<and> takeWhile isDigit r2 \<noteq> []
                    then - int (parseDigits (takeWhile isDigit r2))
                    else int (parseDigits (takeWhile isDigit r1)))
          else 0)"

definition parseFloat :: "string \<Rightarrow> nat \<times> nat" where
  "parseFloat str =
     (let ip = takeWhile isDigit str; r = dropWhile isDigit str
      in case (case r of
                 [] \<Rightarrow> ([], [])
               | c # r1 \<Rightarrow>
                   if c = CHR ''.'' then (takeWhile isDigit r1, dropWhile isDigit r1)
                   else ([], r)) of
           (fp, r2) \<Rightarrow>
             (let ex = parseExponent r2
              in (parseDigits (ip @ fp) * 10 ^ nat ex, 10 ^ length fp * 10 ^ nat (- ex))))"

text \<open>\<^verbatim>\<open>Math.round\<close> of the fraction \<open>num / den\<close>: the nearest integer, a half rounded up.\<close>

definition mathRound :: "nat \<Rightarrow> nat \<Rightarrow> nat" where
  "mathRound num den = (2 * num + den) div (2 * den)"

text \<open>
  \<^verbatim>\<open>toBytes\<close>. With group 3, the value is multiplied by \<^verbatim>\<open>Math.pow(1024, i)\<close>, \<open>i\<close> being
  the index in \<^verbatim>\<open>units\<close> of the first character of the lower-cased group: -1 when that
  character is no unit letter, which divides the value by 1024.
\<close>

definition toBytes :: "string \<Rightarrow> nat option" where
  "toBytes v =
     (case regexExec v of
        None \<Rightarrow> None
      | Some (m1, m3) \<Rightarrow>
          (case parseFloat m1 of
             (num, den) \<Rightarrow>
               (case m3 of
                  None \<Rightarrow> Some (mathRound num den)
                | Some u \<Rightarrow>
                    (let i = (case toLowerCase u of [] \<Rightarrow> - 1 | c # cs \<Rightarrow> indexOf units c)
                     in if i < 0 then Some (mathRound num (den * 1024 ^ nat (- i)))
                        else Some (mathRound (num * 1024 ^ nat i) den)))))"

text \<open>
  The grammar that the specification gives for the accepted texts,
  \<^verbatim>\<open>^\\d+(\\.\\d+)? ?[unit]?(b|ib|B/s)?$\<close>: digits, optionally a point and digits,
  optionally one space, optionally a unit.
\<close>

definition specGrammar :: "string \<Rightarrow> bool" where
  "specGrammar v =
     (let d1 = takeWhile isDigit v; r1 = dropWhile isDigit v
      in if d1 = [] then False
         else
           (let rest = (case r1 of
                          [] \<Rightarrow> []
                        | c # r2 \<Rightarrow>
                            if c = CHR ''.'' \<and> takeWhile isDigit r2 \<noteq> []
                            then dropWhile isDigit r2
                            else r1);
                t = (case rest of
                       [] \<Rightarrow> []
                     | c # r \<Rightarrow> if c = CHR '' '' then r else rest)
            in t = [] \<or> matchUnit (toLowerCase t)))"

section \<open>Example data\<close>

text \<open>
  A listing of two keys, used where a statement is run on concrete rows: \<open>a.txt\<close> is
  a live object, \<open>b.txt\<close> a delete marker. The helpers format every non-zero size as
  \<open>1 KiB\<close> and leave dates as they are; the attribute call succeeds for every key.
\<close>

definition exampleRowA :: S3ObjectVersion where
  "exampleRowA =
     \<lparr>Key = ''a.txt'', VersionId = Some ''v2'', IsLatest = True, IsDeleted = False,
      Size = Some 1024, LastModified = ''2023-05-01T10:00:00Z'',
      ETag = Some (CHR 0x22 # ''abc'' @ [CHR 0x22]), Type = OBJECT\<rparr>"

definition exampleRowB :: S3ObjectVersion where
  "exampleRowB =
     \<lparr>Key = ''b.txt'', VersionId = Some ''v7'', IsLatest = True, IsDeleted = True,
      Size = Some 0, LastModified = ''2023-05-02T11:30:00Z'',
      ETag = Some (CHR 0x22 # ''def'' @ [CHR 0x22]), Type = OBJECT\<rparr>"

definition exampleHelpers :: Helpers where
  "exampleHelpers = \<lparr>formatBytes = (\<lambda>n. ''1 KiB''), localeDate = (\<lambda>v f. v)\<rparr>"

definition exampleNet :: "FetchCall \<Rightarrow> S3ObjectAttributes Outcome" where
  "exampleNet c =
     (case c of
        GetObjectAttributes b k v \<Rightarrow>
          Succeeded \<lparr>rKey = k, rETag = Some (CHR 0x22 # ''abc'' @ [CHR 0x22]),
                     rObjectLockMode = None, rObjectLockRetainUntilDate = None,
                     rObjectLockLegalHoldStatus = None, rTagSet = None,
                     rContentType = Some ''text/plain''\<rparr>)"

text \<open>The page after a reload that lists both rows, with "show deleted" on.\<close>

definition exampleListed :: Page where
  "exampleListed =
     loadData ((initialPage ''bucket'')\<lparr>showDeletedObjects := True\<rparr>)
       [[exampleRowA, exampleRowB]] Completed"

text \<open>
  Row \<open>a.txt\<close> is expanded, then collapsed, then row \<open>b.txt\<close> is expanded: three calls
  of \<open>onExpandedRowsChange\<close>, each with the rows expanded at that time.
\<close>

definition exampleExpandedA :: Page where
  "exampleExpandedA =
     fst (onExpandedRowsChange exampleHelpers exampleListed exampleNet [exampleRowA])"

definition exampleCollapsed :: Page where
  "exampleCollapsed =
     fst (onExpandedRowsChange exampleHelpers exampleExpandedA exampleNet [])"

definition exampleExpandedB :: Page where
  "exampleExpandedB =
     fst (onExpandedRowsChange exampleHelpers exampleCollapsed exampleNet [exampleRowB])"

section \<open>Properties of the reconciliation\<close>

lemma loadData_next_objects:
  "objects (loadData_next s objs) = objects s @ DisplayRowSet (showDeletedObjects s) objs"
  by (simp add: loadData_next_def DisplayRowSet_def Let_def)

lemma loadData_next_showDeleted:
  "showDeletedObjects (loadData_next s objs) = showDeletedObjects s"
  by (simp add: loadData_next_def Let_def)


lemma foldl_next_showDeleted:
  "showDeletedObjects (foldl loadData_next s ems) = showDeletedObjects s"
  by (induction ems arbitrary: s) (simp_all add: loadData_next_showDeleted)

lemma foldl_next_objects:
  "objects (foldl loadData_next s ems) =
     objects s @ concat (map (DisplayRowSet (showDeletedObjects s)) ems)"
  by (induction ems arbitrary: s)
     (simp_all add: loadData_next_objects loadData_next_showDeleted)




text \<open>
  C1. After one reload that receives the list \<open>objs\<close>, whatever the rows shown before and
  whatever the "show deleted" flag, the page shows the records of \<open>objs\<close> with
  \<open>IsLatest\<close> set and \<open>IsDeleted\<close> clear, in input order, followed -- only when "show
  deleted" is on -- by the records with \<open>IsLatest\<close> and \<open>IsDeleted\<close> both set, in input
  order; no record with \<open>IsLatest\<close> clear is shown.
\<close>

theorem C1_display_row_set:
  "objects (loadData s [objs] Completed) =
     filter (\<lambda>ob. IsLatest ob \<and> \<not> IsDeleted ob) objs @
     (if showDeletedObjects s then filter (\<lambda>ob. IsLatest ob \<and> IsDeleted ob) objs else [])
   \<and> filter (\<lambda>ob. \<not> IsLatest ob) (objects (loadData s [objs] Completed)) = []"
  by (simp add: loadData_def loadData_end_def loadData_start_def loadData_next_def Let_def)


section \<open>Properties of the path model\<close>

lemma split_on_plain: "d \<notin> set seg \<Longrightarrow> split_on d seg = [seg]"
  by (induction seg) auto

lemma split_on_delim:
  "d \<notin> set seg \<Longrightarrow> split_on d (seg @ d # rest) = seg # split_on d rest"
  by (induction seg) auto

lemma split_join_with:
  "\<forall>seg \<in> set segs. seg \<noteq> [] \<and> d \<notin> set seg \<Longrightarrow>
     filter (\<lambda>seg. seg \<noteq> []) (split_on d (join_with d segs)) = segs"
proof (induction d segs rule: join_with.induct)
  case (1 d)
  show ?case by simp
next
  case (2 d seg)
  then show ?case by (simp add: split_on_plain)
next
  case (3 d seg nxt segs)
  then show ?case by (simp add: split_on_delim)
qed

text \<open>
  C9. \<open>splitKey\<close> and \<open>buildPrefix\<close> are functions of their arguments alone, and
  splitting the prefix built without a trailing delimiter from segments that are
  non-empty and free of the delimiter gives the segments back.
\<close>

theorem C9_split_build_roundtrip:
  assumes "\<forall>seg \<in> set segments. seg \<noteq> [] \<and> d \<notin> set seg"
  shows "splitKey d (buildPrefix d segments False) = segments"
  using assms by (simp add: splitKey_def buildPrefix_def split_join_with)

theorem C9_split_build_roundtrip_witness:
  "buildPrefix (CHR ''/'') [''photos'', ''2023'', ''a.jpg''] False = ''photos/2023/a.jpg''
   \<and> splitKey (CHR ''/'') (buildPrefix (CHR ''/'') [''photos'', ''2023'', ''a.jpg''] False)
       = [''photos'', ''2023'', ''a.jpg'']"
  using C9_split_build_roundtrip [of "[''photos'', ''2023'', ''a.jpg'']" "CHR ''/''"]
  by (simp add: buildPrefix_def)

section \<open>Properties of the bulk delete\<close>

lemma deleteSources_map:
  "deleteSources s allVersions items sources =
     sources @ map (\<lambda>item. case Type item of
                      FOLDER \<Rightarrow> DeleteObjectByPrefix (bid s) (Key item @ delimiter s) allVersions
                    | OBJECT \<Rightarrow> DeleteObject (bid s) (Key item) None allVersions) items"
  by (induction items arbitrary: sources) (simp_all split: ObjType.splits)

lemma legacy_deleteSources_map:
  "legacy_deleteSources b selected sources =
     sources @ map (\<lambda>data. case Type data of
                      FOLDER \<Rightarrow> LegacyDeleteObjects b (Key data)
                    | OBJECT \<Rightarrow> LegacyDeleteObject b (Key data)) selected"
  by (induction selected arbitrary: sources) (simp_all split: ObjType.splits)

text \<open>
  C3, as the code has it. On the page with versions, the batch of a confirmed delete
  holds one call per selected row, in order: for a folder one \<open>DeleteObjectByPrefix\<close> with
  the key followed by the delimiter, for an object one \<open>DeleteObject\<close>; every call carries
  the same \<open>allVersions\<close>, which is the checkbox of the confirmation when the bucket is
  versioned and false when it is not. On the older page the batch holds one call per row
  as well, but a folder's call gets the key as it is and no call has an all-versions
  argument.
\<close>

theorem C3_delete_calls:
  "deleteSources s allVersions items [] =
     map (\<lambda>item. case Type item of
            FOLDER \<Rightarrow> DeleteObjectByPrefix (bid s) (Key item @ delimiter s) allVersions
          | OBJECT \<Rightarrow> DeleteObject (bid s) (Key item) None allVersions) items
   \<and> doDelete s net items (Some checked) = callbackFn s net items (isBucketVersioned s \<and> checked)
   \<and> legacy_deleteSources b items [] =
     map (\<lambda>data. case Type data of
            FOLDER \<Rightarrow> LegacyDeleteObjects b (Key data)
          | OBJECT \<Rightarrow> LegacyDeleteObject b (Key data)) items"
  by (simp add: deleteSources_map legacy_deleteSources_map doDelete_def)

text \<open>
  The claim as written fails on the older page: for the folder row \<open>docs\<close> the one call
  gets \<open>docs\<close>, not \<open>docs/\<close>, and there is no all-versions argument to pass.
\<close>

theorem C3_counterexample:
  "legacy_deleteSources ''bucket''
     [\<lparr>Key = ''docs'', VersionId = None, IsLatest = True, IsDeleted = False, Size = None,
       LastModified = '''', ETag = None, Type = FOLDER\<rparr>] []
   = [LegacyDeleteObjects ''bucket'' ''docs'']
   \<and> LegacyDeleteObjects ''bucket'' ''docs'' \<noteq> LegacyDeleteObjects ''bucket'' (''docs'' @ ''/'')"
  by simp


lemma firstFailure_None: "(firstFailure rs = None) = list_all isSucceeded rs"
  by (induction rs rule: firstFailure.induct) simp_all



section \<open>Properties of the upload\<close>




section \<open>Properties of the expanded rows\<close>







lemma exampleListed_fields:
  "bid exampleListed = ''bucket''"
  "objects exampleListed = [exampleRowA, exampleRowB]"
  "objectAttrsCache exampleListed = Map.empty"
  "objectNumVersions exampleListed ''a.txt'' = Some 1"
  "objectNumVersions exampleListed ''b.txt'' = Some 1"
  by (simp_all add: exampleListed_def loadData_def loadData_end_def loadData_start_def
      loadData_next_def Let_def exampleRowA_def exampleRowB_def initialPage_def
      isObjectVersionID_def)


lemma findIndex_nonneg: "(0 \<le> findIndex P xs) = (\<exists>x \<in> set xs. P x)"
  by (induction xs) (auto simp add: Let_def)

text \<open>
  When the subscriber of the batch runs, it leaves entries only for keys of the rows of
  the event.
\<close>

lemma next_purges_collapsed:
  "objectAttrsCache (onExpandedRowsChange_next h objs s objAttrs) key \<noteq> None \<Longrightarrow>
     key \<in> Key ` set objs"
  by (auto simp add: onExpandedRowsChange_next_def purgeCollapsed_def Let_def findIndex_nonneg
      split: if_splits)

text \<open>
  So a batch that makes at least one attribute call, all of which succeed, ends with
  entries only for keys of the rows expanded now.
\<close>

lemma batch_purges_when_fetching:
  assumes calls: "snd (onExpandedRowsChange h s net event) \<noteq> []"
    and ok: "list_all (\<lambda>c. isSucceeded (net c)) (snd (onExpandedRowsChange h s net event))"
    and cached: "objectAttrsCache (fst (onExpandedRowsChange h s net event)) key \<noteq> None"
  shows "key \<in> Key ` set event"
proof -
  obtain s1 sources
    where ex: "expandRows h event (s\<lparr>loadingObjectAttrsKeys := []\<rparr>, []) = (s1, sources)"
    by (cases "expandRows h event (s\<lparr>loadingObjectAttrsKeys := []\<rparr>, [])") auto
  from ex calls have ne: "sources \<noteq> []"
    by (simp add: onExpandedRowsChange_def split: prod.splits)
  from ex ok have "list_all isSucceeded (map net sources)"
    by (simp add: onExpandedRowsChange_def list_all_iff split: prod.splits)
  then have ff: "firstFailure (map net sources) = None"
    by (simp add: firstFailure_None)
  have "objectAttrsCache (fst (onExpandedRowsChange h s net event)) =
        objectAttrsCache (onExpandedRowsChange_next h event s1 (results (map net sources)))"
    using ex ne ff by (simp add: onExpandedRowsChange_def forkJoin_def)
  with cached show ?thesis
    using next_purges_collapsed by metis
qed

text \<open>
  The subscriber does not run when the batch has no attribute call, since \<open>forkJoin\<close> of
  no source emits nothing: the cache is then left as the loop made it.
\<close>

lemma no_sources_no_purge:
  "snd (expandRows h event (s\<lparr>loadingObjectAttrsKeys := []\<rparr>, [])) = [] \<Longrightarrow>
     objectAttrsCache (fst (onExpandedRowsChange h s net event)) =
     objectAttrsCache (fst (expandRows h event (s\<lparr>loadingObjectAttrsKeys := []\<rparr>, [])))"
  by (cases "expandRows h event (s\<lparr>loadingObjectAttrsKeys := []\<rparr>, [])")
     (simp add: onExpandedRowsChange_def forkJoin_def)

text \<open>
  C7 fails on the code. Row \<open>a.txt\<close> is expanded and its attributes arrive; the row is
  collapsed; then the deleted row \<open>b.txt\<close> is expanded. Neither of the last two batches
  has an attribute call, so neither purges: the cache ends with the entry of the
  collapsed row \<open>a.txt\<close> beside that of \<open>b.txt\<close>, where the claim allows \<open>b.txt\<close> only.
\<close>

theorem C7_collapsed_row_stays_cached:
  "map (\<lambda>key. objectAttrsCache exampleExpandedA key \<noteq> None) [''a.txt'', ''b.txt'']
     = [True, False]
   \<and> map (\<lambda>key. objectAttrsCache exampleCollapsed key \<noteq> None) [''a.txt'', ''b.txt'']
     = [True, False]
   \<and> map (\<lambda>key. objectAttrsCache exampleExpandedB key \<noteq> None) [''a.txt'', ''b.txt'']
     = [True, True]"
  by (simp add: exampleExpandedB_def exampleCollapsed_def exampleExpandedA_def
      exampleListed_fields exampleRowA_def exampleRowB_def exampleNet_def
      onExpandedRowsChange_def forkJoin_def onExpandedRowsChange_next_def purgeCollapsed_def)

section \<open>Properties of the table actions\<close>


lemma doDownload_map:
  "doDownload s selected sources =
     sources @ map (\<lambda>row. DownloadObject (bid s) (Key row)) selected"
  by (induction selected arbitrary: sources) simp_all





section \<open>Properties of the unit conversion\<close>

lemmas toBytes_eval =
  toBytes_def regexExec_def parseFloat_def parseExponent_def parseDigits_def
  isDigit_def isLineTerminator_def mathRound_def matchUnit_def toLowerCase_def units_def
  Let_def

text \<open>The tests of \<^verbatim>\<open>functions.helper.spec.ts\<close> for \<^verbatim>\<open>toBytes\<close>.\<close>

lemma toBytes_unit_tests:
  "toBytes ''1024'' = Some 1024"
  "toBytes '''' = None"
  "toBytes ''512B'' = Some 512"
  "toBytes ''1 KiB'' = Some 1024"
  "toBytes ''1M'' = Some 1048576"
  "toBytes ''1 GiB'' = Some 1073741824"
  by (simp_all add: toBytes_eval)

text \<open>
  C8 fails on the code. The text \<open>1x5\<close> is not in the grammar of the specification, so
  \<open>toBytes\<close> should answer \<^verbatim>\<open>null\<close>; but the unescaped dot of the pattern takes the
  \<open>x\<close>, the text matches, and \<open>parseFloat\<close> reads the 1 in front.
\<close>

theorem C8_unescaped_dot_accepted:
  "specGrammar ''1x5'' = False \<and> toBytes ''1x5'' = Some 1"
  by (simp add: specGrammar_def toBytes_eval)

text \<open>
  A second way in which the result is not the number scaled by a power of 1024 with a
  unit index: a suffix without a unit letter is in both grammars, and its first letter
  \<open>i\<close> has index -1 in the list of units, so the value is divided by 1024.
\<close>

lemma toBytes_suffix_without_unit:
  "specGrammar ''2048ib'' = True \<and> toBytes ''2048ib'' = Some 2"
  by (simp add: specGrammar_def toBytes_eval)

end
